theory Spec2Isabelle
  imports Main "HOL-Library.Sublist" "HOL-Library.Word"
begin

unbundle bit_operations_syntax

section \<open>Python values used by the auth domain\<close>

text \<open>
  A Python \<open>str\<close> is a sequence of Unicode code points, so it is modelled as a list of
  naturals.  The Korean literals of the source are written out code point by code point;
  ASCII literals go through \<open>ascii\<close>.  A \<open>bytes\<close> value is a list of 8-bit words.
\<close>

type_synonym pystr = "nat list"

type_synonym pybytes = "8 word list"

definition ascii :: "string \<Rightarrow> pystr" where
  "ascii s = map of_char s"

text \<open>
  \<open>str.isspace\<close> for one code point: the characters CPython's \<open>str.strip()\<close> removes when
  it is called without an argument.
\<close>

definition isspace :: "nat \<Rightarrow> bool" where
  "isspace c \<longleftrightarrow>
     (0x09 \<le> c \<and> c \<le> 0x0D) \<or> (0x1C \<le> c \<and> c \<le> 0x20) \<or> c = 0x85 \<or> c = 0xA0 \<or>
     c = 0x1680 \<or> (0x2000 \<le> c \<and> c \<le> 0x200A) \<or> c = 0x2028 \<or> c = 0x2029 \<or>
     c = 0x202F \<or> c = 0x205F \<or> c = 0x3000"

text \<open>\<open>s.strip()\<close>: leading, then trailing whitespace is dropped.\<close>

definition strip :: "pystr \<Rightarrow> pystr" where
  "strip s = rev (dropWhile isspace (rev (dropWhile isspace s)))"

text \<open>\<open>needle in haystack\<close> on strings: the needle occurs as a contiguous run.\<close>

fun startswith :: "pystr \<Rightarrow> pystr \<Rightarrow> bool" where
  "startswith s [] = True"
| "startswith [] (p # ps) = False"
| "startswith (c # cs) (p # ps) = (c = p \<and> startswith cs ps)"

fun str_in :: "pystr \<Rightarrow> pystr \<Rightarrow> bool" where
  "str_in needle [] = (needle = [])"
| "str_in needle (c # cs) = (startswith (c # cs) needle \<or> str_in needle cs)"

section \<open>Message literals of the source\<close>

text \<open>\<open>f"..: {username}"\<close> prefix of the not-found exception (service.py, line 86).\<close>

definition msg_user_not_found_prefix :: pystr where
  "msg_user_not_found_prefix =
     [0xC0AC, 0xC6A9, 0xC790, 0xB97C, 0x20, 0xCC3E, 0xC744, 0x20, 0xC218, 0x20,
      0xC5C6, 0xC2B5, 0xB2C8, 0xB2E4, 0x3A, 0x20]"

text \<open>The password-mismatch message (service.py, line 96).\<close>

definition msg_password_mismatch :: pystr where
  "msg_password_mismatch =
     [0xBE44, 0xBC00, 0xBC88, 0xD638, 0xAC00, 0x20, 0xC77C, 0xCE58, 0xD558, 0xC9C0,
      0x20, 0xC54A, 0xC2B5, 0xB2C8, 0xB2E4]"

text \<open>The success message of the response (service.py, line 107).\<close>

definition msg_login_success :: pystr where
  "msg_login_success = [0xB85C, 0xADF8, 0xC778, 0x20, 0xC131, 0xACF5]"

text \<open>The two validation messages (service.py, lines 157 and 160).\<close>

definition msg_username_blank :: pystr where
  "msg_username_blank =
     [0xC0AC, 0xC6A9, 0xC790, 0x20, 0x49, 0x44, 0xB294, 0x20, 0xBE48, 0x20, 0xBB38,
      0xC790, 0xC5F4, 0xC77C, 0x20, 0xC218, 0x20, 0xC5C6, 0xC2B5, 0xB2C8, 0xB2E4]"

definition msg_password_blank :: pystr where
  "msg_password_blank =
     [0xBE44, 0xBC00, 0xBC88, 0xD638, 0xB294, 0x20, 0xBE48, 0x20, 0xBB38, 0xC790,
      0xC5F4, 0xC77C, 0x20, 0xC218, 0x20, 0xC5C6, 0xC2B5, 0xB2C8, 0xB2E4]"

text \<open>The deliberately vague message of the not-found branch (service.py, line 229).\<close>

definition msg_credentials_incorrect :: pystr where
  "msg_credentials_incorrect =
     [0xC0AC, 0xC6A9, 0xC790, 0x20, 0x49, 0x44, 0x20, 0xB610, 0xB294, 0x20, 0xBE44,
      0xBC00, 0xBC88, 0xD638, 0xAC00, 0x20, 0xC62C, 0xBC14, 0xB974, 0xC9C0, 0x20,
      0xC54A, 0xC2B5, 0xB2C8, 0xB2E4]"

text \<open>The generic message (service.py, line 231; auth/__init__.py, line 106).\<close>

definition msg_login_error :: pystr where
  "msg_login_error =
     [0xB85C, 0xADF8, 0xC778, 0x20, 0xCC98, 0xB9AC, 0x20, 0xC911, 0x20, 0xC624,
      0xB958, 0xAC00, 0x20, 0xBC1C, 0xC0DD, 0xD588, 0xC2B5, 0xB2C8, 0xB2E4]"

text \<open>The four needles the endpoint searches for (auth/__init__.py, lines 109 and 114).\<close>

definition sub_cannot_find :: pystr where
  "sub_cannot_find = [0xCC3E, 0xC744, 0x20, 0xC218, 0x20, 0xC5C6, 0xC2B5, 0xB2C8, 0xB2E4]"

definition sub_not_match :: pystr where
  "sub_not_match = [0xC77C, 0xCE58, 0xD558, 0xC9C0, 0x20, 0xC54A, 0xC2B5, 0xB2C8, 0xB2E4]"

definition sub_not_correct :: pystr where
  "sub_not_correct = [0xC62C, 0xBC14, 0xB974, 0xC9C0, 0x20, 0xC54A, 0xC2B5, 0xB2C8, 0xB2E4]"

definition sub_empty_string :: pystr where
  "sub_empty_string = [0xBE48, 0x20, 0xBB38, 0xC790, 0xC5F4]"

section \<open>Schemas (schemas/__init__.py)\<close>

record LoginRequest =
  username :: pystr
  password :: pystr

record LoginResponse =
  user_id :: pystr
  user_name :: pystr
  token :: pystr
  message :: pystr

record UserRecord =
  user_id :: pystr
  password :: pystr
  user_name :: pystr

text \<open>
  The field constraints of \<open>LoginRequest\<close> (\<open>min_length\<close>, \<open>max_length\<close>): the requests the
  web framework hands to the endpoint satisfy them.
\<close>

definition LoginRequest_fields_ok :: "LoginRequest \<Rightarrow> bool" where
  "LoginRequest_fields_ok request \<longleftrightarrow>
     1 \<le> length (username request) \<and> length (username request) \<le> 100 \<and>
     1 \<le> length (LoginRequest.password request) \<and>
     length (LoginRequest.password request) \<le> 200"

section \<open>Exceptions and the result envelope\<close>

text \<open>
  Modelled from the spec: \<open>server.app.shared.exceptions\<close> is not part of the sources at
  hand.  \<open>ValidationException\<close> and \<open>NotFoundException\<close> are taken as two unrelated
  subclasses of \<open>Exception\<close> whose \<open>str()\<close> is the message they were built with (spec 4.4 and
  7: the two kinds keep their specific message text).  \<open>OtherException n\<close> stands for an
  instance of any other subclass of \<open>Exception\<close>, \<open>n\<close> being its \<open>__name__\<close>.  Signals that
  derive from \<open>BaseException\<close> only (task cancellation, interpreter exit) are not modelled.
\<close>

datatype exc =
    ValidationException pystr
  | NotFoundException pystr
  | OtherException pystr

fun type_name :: "exc \<Rightarrow> pystr" where
  "type_name (ValidationException m) = ascii ''ValidationException''"
| "type_name (NotFoundException m) = ascii ''NotFoundException''"
| "type_name (OtherException n) = n"

text \<open>
  Modelled from the spec: \<open>server.app.shared.types.ServiceResult\<close> is not part of the sources at
  hand.  Spec 3 describes it as an envelope tagged success or failure that carries either a
  payload or an error message, plus free-form metadata; \<open>ServiceResult_ok\<close> and
  \<open>ServiceResult_fail\<close> are its two constructors \<open>ServiceResult.ok\<close> and \<open>ServiceResult.fail\<close>.
\<close>

record 'a ServiceResult =
  success :: bool
  data :: "'a option"
  error :: "pystr option"
  metadata :: "(pystr \<times> pystr) list"

definition ServiceResult_ok :: "'a \<Rightarrow> (pystr \<times> pystr) list \<Rightarrow> 'a ServiceResult" where
  "ServiceResult_ok d md = \<lparr>success = True, data = Some d, error = None, metadata = md\<rparr>"

definition ServiceResult_fail :: "pystr \<Rightarrow> (pystr \<times> pystr) list \<Rightarrow> 'a ServiceResult" where
  "ServiceResult_fail e md = \<lparr>success = False, data = None, error = Some e, metadata = md\<rparr>"

section \<open>The database session and the repository (repositories/__init__.py)\<close>

text \<open>
  The Oracle session is an external collaborator.  Its state is the content of table
  \<open>T_USER\<close> (rows of the columns \<open>USER_ID\<close>, \<open>PASSWORD\<close>, \<open>USER_NAME\<close>, \<open>None\<close> for SQL
  \<open>NULL\<close>), the exception class \<open>db.execute\<close> raises when the session is broken, and the log
  of the bind values of the statements it was asked to execute.
\<close>

type_synonym row = "pystr option \<times> pystr option \<times> pystr option"

record AsyncSession =
  t_user :: "row list"
  fault :: "pystr option"
  executed :: "pystr list"

text \<open>
  \<open>await self.db.execute(query, {"username": username})\<close> for the query
  \<open>SELECT USER_ID, PASSWORD, USER_NAME FROM T_USER WHERE USER_ID = :username\<close>.
\<close>

definition db_execute :: "pystr \<Rightarrow> AsyncSession \<Rightarrow> (exc + row list) \<times> AsyncSession" where
  "db_execute uname db =
     (let db' = db\<lparr>executed := executed db @ [uname]\<rparr>
      in case fault db of
           Some n \<Rightarrow> (Inl (OtherException n), db')
         | None \<Rightarrow> (Inr (filter (\<lambda>r. fst r = Some uname) (t_user db)), db'))"

definition fetchone :: "row list \<Rightarrow> row option" where
  "fetchone rows = (case rows of [] \<Rightarrow> None | r # _ \<Rightarrow> Some r)"

text \<open>
  \<open>UserRecord(user_id=row[0], password=row[1], user_name=row[2])\<close>: the three fields are
  required strings, so the data-validation library raises its \<open>ValidationError\<close> on \<open>NULL\<close>.
\<close>

definition UserRecord_of_row :: "row \<Rightarrow> exc + UserRecord" where
  "UserRecord_of_row r =
     (case r of
        (Some c0, Some c1, Some c2) \<Rightarrow>
          Inr \<lparr>UserRecord.user_id = c0, UserRecord.password = c1, UserRecord.user_name = c2\<rparr>
      | _ \<Rightarrow> Inl (OtherException (ascii ''ValidationError'')))"

text \<open>
  \<open>AuthRepository.find_user_by_username\<close>.  The \<open>except Exception\<close> clause logs and re-raises,
  so every exception of the \<open>try\<close> block is the result.
\<close>

definition find_user_by_username ::
  "pystr \<Rightarrow> AsyncSession \<Rightarrow> (exc + UserRecord option) \<times> AsyncSession" where
  "find_user_by_username uname db =
     (case db_execute uname db of
        (Inl e, db') \<Rightarrow> (Inl e, db')
      | (Inr result, db') \<Rightarrow>
          (case fetchone result of
             None \<Rightarrow> (Inr None, db')
           | Some r \<Rightarrow>
               (case UserRecord_of_row r of
                  Inl e \<Rightarrow> (Inl e, db')
                | Inr user_record \<Rightarrow> (Inr (Some user_record), db'))))"

definition verify_user_exists :: "pystr \<Rightarrow> AsyncSession \<Rightarrow> (exc + bool) \<times> AsyncSession" where
  "verify_user_exists uname db =
     (case find_user_by_username uname db of
        (Inl e, db') \<Rightarrow> (Inl e, db')
      | (Inr user, db') \<Rightarrow> (Inr (user \<noteq> None), db'))"

section \<open>The token issuer\<close>

text \<open>
  \<open>secrets.token_urlsafe(32)\<close> is
  \<open>base64.urlsafe_b64encode(token_bytes(32)).rstrip(b'=').decode('ascii')\<close>.  The 32 bytes
  the system's random source returns for the call are an argument of the model.
\<close>

definition b64_alphabet :: pystr where
  "b64_alphabet =
     ascii ''ABCDEFGHIJKLMNOPQRSTUVWXYZabcdefghijklmnopqrstuvwxyz0123456789+/''"

definition b64_char :: "8 word \<Rightarrow> nat" where
  "b64_char s = b64_alphabet ! unat (s AND 0x3F)"

text \<open>
  \<open>base64.b64encode\<close>: three bytes give four groups of six bits, a last group of one byte gives
  two and of two bytes gives three; each group is written as its character of the alphabet, and
  \<open>=\<close> pads the text to a multiple of four characters.
\<close>

fun b64_sextets :: "pybytes \<Rightarrow> 8 word list" where
  "b64_sextets [] = []"
| "b64_sextets [a] = [drop_bit 2 a, push_bit 4 (a AND 3)]"
| "b64_sextets [a, b] =
     [drop_bit 2 a, push_bit 4 (a AND 3) OR drop_bit 4 b, push_bit 2 (b AND 15)]"
| "b64_sextets (a # b # c # rest) =
     [drop_bit 2 a, push_bit 4 (a AND 3) OR drop_bit 4 b,
      push_bit 2 (b AND 15) OR drop_bit 6 c, c AND 63]
     @ b64_sextets rest"

definition b64encode :: "pybytes \<Rightarrow> pystr" where
  "b64encode bs =
     map b64_char (b64_sextets bs)
     @ replicate ((3 - length bs mod 3) mod 3) (of_char CHR ''='')"

text \<open>The translation table of \<open>urlsafe_b64encode\<close>: \<open>+\<close> becomes \<open>-\<close>, \<open>/\<close> becomes \<open>_\<close>.\<close>

definition urlsafe_translate :: "nat \<Rightarrow> nat" where
  "urlsafe_translate c =
     (if c = of_char CHR ''+'' then of_char CHR ''-''
      else if c = of_char CHR ''/'' then of_char CHR ''_'' else c)"

definition urlsafe_b64encode :: "pybytes \<Rightarrow> pystr" where
  "urlsafe_b64encode bs = map urlsafe_translate (b64encode bs)"

definition rstrip_eq :: "pystr \<Rightarrow> pystr" where
  "rstrip_eq s = rev (dropWhile (\<lambda>c. c = of_char CHR ''='') (rev s))"

definition token_urlsafe :: "pybytes \<Rightarrow> pystr" where
  "token_urlsafe tok = rstrip_eq (urlsafe_b64encode tok)"

text \<open>\<open>AuthService._generate_temp_token\<close>: \<open>f"temp_token_{secrets.token_urlsafe(32)}"\<close>.\<close>

definition generate_temp_token :: "pybytes \<Rightarrow> pystr" where
  "generate_temp_token tok = ascii ''temp_token_'' @ token_urlsafe tok"

section \<open>The service (service.py)\<close>

text \<open>\<open>AuthService.validate_request\<close>: raises, or returns \<open>None\<close>.\<close>

definition validate_request :: "LoginRequest \<Rightarrow> exc + unit" where
  "validate_request request =
     (if strip (username request) = [] then Inl (ValidationException msg_username_blank)
      else if strip (LoginRequest.password request) = []
      then Inl (ValidationException msg_password_blank)
      else Inr ())"

text \<open>\<open>AuthService._verify_password\<close>: plain comparison of the two strings.\<close>

definition verify_password :: "pystr \<Rightarrow> pystr \<Rightarrow> bool" where
  "verify_password input_password stored_password \<longleftrightarrow> input_password = stored_password"

text \<open>\<open>AuthService.handle_error\<close>; the logging call has no part in the result.\<close>

definition handle_error :: "exc \<Rightarrow> LoginRequest \<Rightarrow> LoginResponse ServiceResult" where
  "handle_error err request =
     (let error_message =
            (case err of
               ValidationException m \<Rightarrow> m
             | NotFoundException m \<Rightarrow> msg_credentials_incorrect
             | OtherException n \<Rightarrow> msg_login_error)
      in ServiceResult_fail error_message
           [(ascii ''error_type'', type_name err), (ascii ''username'', username request)])"

text \<open>
  The \<open>try\<close> block of \<open>AuthService.execute\<close> (service.py, lines 71 to 130): an exception or
  the envelope it returns, and the session afterwards.  Modelled from the spec: the hooks
  \<open>before_execute\<close> and \<open>after_execute\<close> belong to \<open>BaseService\<close>, which is not part of the
  sources at hand; the orchestrator of spec 4.4 has no step for them, and they are taken to do
  nothing.
\<close>

definition execute_try ::
  "LoginRequest \<Rightarrow> pybytes \<Rightarrow> AsyncSession \<Rightarrow>
     (exc + LoginResponse ServiceResult) \<times> AsyncSession" where
  "execute_try request tok db =
     (case validate_request request of
        Inl e \<Rightarrow> (Inl e, db)
      | Inr _ \<Rightarrow>
          (case find_user_by_username (username request) db of
             (Inl e, db') \<Rightarrow> (Inl e, db')
           | (Inr None, db') \<Rightarrow>
               (Inl (NotFoundException (msg_user_not_found_prefix @ username request)), db')
           | (Inr (Some user_record), db') \<Rightarrow>
               if \<not> verify_password (LoginRequest.password request)
                      (UserRecord.password user_record)
               then (Inl (ValidationException msg_password_mismatch), db')
               else
                 let token = generate_temp_token tok;
                     response =
                       \<lparr>LoginResponse.user_id = UserRecord.user_id user_record,
                        LoginResponse.user_name = UserRecord.user_name user_record,
                        token = token, message = msg_login_success\<rparr>;
                     result =
                       ServiceResult_ok response
                         [(ascii ''username'', username request),
                          (ascii ''user_id'', UserRecord.user_id user_record)]
                 in (Inr result, db')))"

text \<open>
  \<open>AuthService.execute\<close>: the two \<open>except\<close> clauses.  The first takes the two application
  exceptions, the second every other \<open>Exception\<close>; both return what \<open>handle_error\<close> returns.
  The result is a sum so that an exception leaving \<open>execute\<close> would be a value \<open>Inl\<close>.
\<close>

definition execute ::
  "LoginRequest \<Rightarrow> pybytes \<Rightarrow> AsyncSession \<Rightarrow>
     (exc + LoginResponse ServiceResult) \<times> AsyncSession" where
  "execute request tok db =
     (case execute_try request tok db of
        (Inr result, db') \<Rightarrow> (Inr result, db')
      | (Inl (ValidationException m), db') \<Rightarrow>
          (Inr (handle_error (ValidationException m) request), db')
      | (Inl (NotFoundException m), db') \<Rightarrow>
          (Inr (handle_error (NotFoundException m) request), db')
      | (Inl (OtherException n), db') \<Rightarrow>
          (Inr (handle_error (OtherException n) request), db'))"

section \<open>The endpoint (auth/__init__.py)\<close>

record HTTPException =
  status_code :: nat
  detail :: pystr

text \<open>
  What leaves the endpoint function \<open>login\<close>: an exception of the service that nothing caught, the
  \<open>HTTPException\<close> it raises itself, or the value of \<open>result.data\<close> it returns.
\<close>

datatype outcome =
    Escaped exc
  | Raised HTTPException
  | Returned "LoginResponse option"

definition login :: "LoginRequest \<Rightarrow> pybytes \<Rightarrow> AsyncSession \<Rightarrow> outcome \<times> AsyncSession" where
  "login request tok oracle_db =
     (case execute request tok oracle_db of
        (Inl e, db') \<Rightarrow> (Escaped e, db')
      | (Inr result, db') \<Rightarrow>
          if \<not> success result then
            let error_message =
                  (case error result of
                     None \<Rightarrow> msg_login_error
                   | Some m \<Rightarrow> if m = [] then msg_login_error else m)
            in if str_in sub_cannot_find error_message \<or> str_in sub_not_match error_message
                    \<or> str_in sub_not_correct error_message
               then (Raised \<lparr>status_code = 401, detail = error_message\<rparr>, db')
               else if str_in sub_empty_string error_message
               then (Raised \<lparr>status_code = 400, detail = error_message\<rparr>, db')
               else (Raised \<lparr>status_code = 500, detail = error_message\<rparr>, db')
          else (Returned (data result), db'))"

text \<open>
  The status line of the HTTP response: the route is declared with \<open>status_code=200\<close>, a raised
  \<open>HTTPException\<close> carries its own status, and the web framework answers 500 when the handler
  lets another exception escape or returns a value that is no \<open>LoginResponse\<close>.
\<close>

fun http_status :: "outcome \<Rightarrow> nat" where
  "http_status (Raised e) = status_code e"
| "http_status (Returned (Some response)) = 200"
| "http_status (Returned None) = 500"
| "http_status (Escaped e) = 500"

section \<open>Scenario data\<close>

text \<open>
  The scenarios of spec 8: a store that holds the one record
  \<open>user001 / password123 / Hong Gil-dong\<close>, the same store with a broken connection, and the
  32 zero bytes as one possible answer of the random source.
\<close>

definition name_hong :: pystr where
  "name_hong = [0xD64D, 0xAE38, 0xB3D9]"

definition example_db :: AsyncSession where
  "example_db =
     \<lparr>t_user = [(Some (ascii ''user001''), Some (ascii ''password123''), Some name_hong)],
      fault = None, executed = []\<rparr>"

definition broken_db :: AsyncSession where
  "broken_db = example_db\<lparr>fault := Some (ascii ''DatabaseError'')\<rparr>"

definition login_request :: "string \<Rightarrow> string \<Rightarrow> LoginRequest" where
  "login_request u p = \<lparr>username = ascii u, LoginRequest.password = ascii p\<rparr>"

definition zero_bytes :: pybytes where
  "zero_bytes = replicate 32 0"


section \<open>Facts about the Python helpers\<close>

lemma strip_Nil_iff: "strip s = [] \<longleftrightarrow> (\<forall>c\<in>set s. isspace c)"
proof -
  have "dropWhile isspace (rev (dropWhile isspace s)) = [] \<longleftrightarrow> dropWhile isspace s = []"
  proof (cases "dropWhile isspace s")
    case Nil
    show ?thesis unfolding Nil by simp
  next
    case (Cons c cs)
    then have "\<not> isspace c"
      by (metis hd_dropWhile list.sel(1) list.distinct(1))
    with Cons show ?thesis by (auto simp: dropWhile_eq_Nil_conv)
  qed
  then show ?thesis
    by (simp add: strip_def dropWhile_eq_Nil_conv)
qed

lemma nonblank_iff: "strip s \<noteq> [] \<longleftrightarrow> (\<exists>c\<in>set s. \<not> isspace c)"
  by (simp add: strip_Nil_iff)

text \<open>\<open>str_in\<close> computes the contiguous-sublist relation of the library.\<close>

lemma startswith_prefix: "startswith s p \<longleftrightarrow> prefix p s"
  by (induction s p rule: startswith.induct) auto

lemma str_in_sublist: "str_in needle hay \<longleftrightarrow> sublist needle hay"
  by (induction needle hay rule: str_in.induct)
     (auto simp: startswith_prefix sublist_Cons_right)

lemma ascii_eq_iff: "ascii s = ascii t \<longleftrightarrow> s = t"
  unfolding ascii_def by (simp add: inj_map_eq_map inj_on_def)

section \<open>Facts about the repository\<close>

lemma find_user_executed:
  "executed (snd (find_user_by_username u db)) = executed db @ [u]"
  by (simp add: find_user_by_username_def db_execute_def Let_def
           split: option.splits sum.splits)


lemma find_user_none:
  "fault db = None \<Longrightarrow> \<forall>r\<in>set (t_user db). fst r \<noteq> Some u \<Longrightarrow>
   find_user_by_username u db = (Inr None, db\<lparr>executed := executed db @ [u]\<rparr>)"
proof -
  assume a: "fault db = None" and b: "\<forall>r\<in>set (t_user db). fst r \<noteq> Some u"
  from b have "filter (\<lambda>r. fst r = Some u) (t_user db) = []"
    by (simp add: filter_empty_conv)
  with a show ?thesis
    by (simp add: find_user_by_username_def db_execute_def Let_def fetchone_def)
qed

lemma fetchone_filter_unique:
  "r \<in> set rows \<Longrightarrow> P r \<Longrightarrow> \<forall>x\<in>set rows. P x \<longrightarrow> x = r \<Longrightarrow>
   fetchone (filter P rows) = Some r"
proof (induction rows)
  case Nil
  then show ?case by simp
next
  case (Cons x xs)
  show ?case
  proof (cases "P x")
    case True
    with Cons.prems(3) have "x = r" by simp
    with True show ?thesis by (simp add: fetchone_def)
  next
    case False
    with Cons.prems(1,2) have "r \<in> set xs" by auto
    moreover from Cons.prems(3) have "\<forall>y\<in>set xs. P y \<longrightarrow> y = r" by simp
    ultimately have "fetchone (filter P xs) = Some r"
      using Cons.IH Cons.prems(2) by blast
    with False show ?thesis by simp
  qed
qed

lemma find_user_some:
  assumes "fault db = None"
    and "(Some u, Some p, Some n) \<in> set (t_user db)"
    and "\<forall>r\<in>set (t_user db). fst r = Some u \<longrightarrow> r = (Some u, Some p, Some n)"
  shows "find_user_by_username u db =
           (Inr (Some \<lparr>UserRecord.user_id = u, UserRecord.password = p,
                        UserRecord.user_name = n\<rparr>),
            db\<lparr>executed := executed db @ [u]\<rparr>)"
proof -
  have "fetchone (filter (\<lambda>r. fst r = Some u) (t_user db)) = Some (Some u, Some p, Some n)"
  proof (rule fetchone_filter_unique)
    show "(Some u, Some p, Some n) \<in> set (t_user db)" by (rule assms(2))
    show "fst (Some u, Some p, Some n) = Some u" by simp
    show "\<forall>x\<in>set (t_user db). fst x = Some u \<longrightarrow> x = (Some u, Some p, Some n)"
      by (rule assms(3))
  qed
  with assms(1) show ?thesis
    by (simp add: find_user_by_username_def db_execute_def Let_def UserRecord_of_row_def)
qed

lemma find_user_some_id:
  assumes "fst (find_user_by_username u db) = Inr (Some user_record)"
  shows "UserRecord.user_id user_record = u \<and>
         (Some u, Some (UserRecord.password user_record),
          Some (UserRecord.user_name user_record)) \<in> set (t_user db)"
proof -
  define sel where "sel = filter (\<lambda>r. fst r = Some u) (t_user db)"
  have run: "find_user_by_username u db =
      (case fault db of
         Some n \<Rightarrow> (Inl (OtherException n), db\<lparr>executed := executed db @ [u]\<rparr>)
       | None \<Rightarrow>
          (case fetchone sel of
             None \<Rightarrow> (Inr None, db\<lparr>executed := executed db @ [u]\<rparr>)
           | Some r \<Rightarrow>
               (case UserRecord_of_row r of
                  Inl e \<Rightarrow> (Inl e, db\<lparr>executed := executed db @ [u]\<rparr>)
                | Inr user_record \<Rightarrow>
                    (Inr (Some user_record), db\<lparr>executed := executed db @ [u]\<rparr>))))"
    by (simp add: find_user_by_username_def db_execute_def Let_def sel_def
             split: option.splits)
  from assms obtain r where r: "fetchone sel = Some r" "UserRecord_of_row r = Inr user_record"
    unfolding run by (auto split: option.splits sum.splits)
  from r(1) obtain rs where "sel = r # rs"
    by (auto simp: fetchone_def split: list.splits)
  then have "r \<in> set sel" by simp
  then have mem: "r \<in> set (t_user db)" and key: "fst r = Some u"
    by (simp_all add: sel_def)
  obtain c0 c1 c2 where rr: "r = (c0, c1, c2)" by (cases r)
  from r(2) rr obtain a b c where abc: "c0 = Some a" "c1 = Some b" "c2 = Some c"
      "user_record = \<lparr>UserRecord.user_id = a, UserRecord.password = b,
                        UserRecord.user_name = c\<rparr>"
    by (auto simp: UserRecord_of_row_def split: option.splits)
  from key rr abc have "a = u" by simp
  with mem rr abc show ?thesis by simp
qed

section \<open>Facts about the token issuer\<close>


























section \<open>Facts about the service and the endpoint\<close>

lemma validate_request_Inr_iff:
  "validate_request request = Inr () \<longleftrightarrow>
     strip (username request) \<noteq> [] \<and> strip (LoginRequest.password request) \<noteq> []"
  by (simp add: validate_request_def)

lemma needles_username_blank:
  "\<not> str_in sub_cannot_find msg_username_blank"
  "\<not> str_in sub_not_match msg_username_blank"
  "\<not> str_in sub_not_correct msg_username_blank"
  "str_in sub_empty_string msg_username_blank"
  by (simp_all add: sub_cannot_find_def sub_not_match_def sub_not_correct_def
        sub_empty_string_def msg_username_blank_def)

lemma needles_password_blank:
  "\<not> str_in sub_cannot_find msg_password_blank"
  "\<not> str_in sub_not_match msg_password_blank"
  "\<not> str_in sub_not_correct msg_password_blank"
  "str_in sub_empty_string msg_password_blank"
  by (simp_all add: sub_cannot_find_def sub_not_match_def sub_not_correct_def
        sub_empty_string_def msg_password_blank_def)

lemma needles_password_mismatch:
  "str_in sub_not_match msg_password_mismatch"
  by (simp add: sub_not_match_def msg_password_mismatch_def)

lemma needles_credentials_incorrect:
  "str_in sub_not_correct msg_credentials_incorrect"
  by (simp add: sub_not_correct_def msg_credentials_incorrect_def)

lemma needles_credentials_incorrect_only:
  "\<not> str_in sub_cannot_find msg_credentials_incorrect"
  by (simp add: sub_cannot_find_def msg_credentials_incorrect_def)

lemma needles_login_error:
  "\<not> str_in sub_cannot_find msg_login_error"
  "\<not> str_in sub_not_match msg_login_error"
  "\<not> str_in sub_not_correct msg_login_error"
  "\<not> str_in sub_empty_string msg_login_error"
  by (simp_all add: sub_cannot_find_def sub_not_match_def sub_not_correct_def
        sub_empty_string_def msg_login_error_def)

lemma messages_nonempty:
  "msg_username_blank \<noteq> []" "msg_password_blank \<noteq> []" "msg_password_mismatch \<noteq> []"
  "msg_credentials_incorrect \<noteq> []" "msg_login_error \<noteq> []"
  by (simp_all add: msg_username_blank_def msg_password_blank_def msg_password_mismatch_def
        msg_credentials_incorrect_def msg_login_error_def)

lemma messages_distinct:
  "msg_password_mismatch \<noteq> msg_credentials_incorrect"
  by (simp add: msg_password_mismatch_def msg_credentials_incorrect_def)

lemma execute_of_try:
  "execute request tok db =
     (case execute_try request tok db of
        (Inl e, db') \<Rightarrow> (Inr (handle_error e request), db')
      | (Inr result, db') \<Rightarrow> (Inr result, db'))"
  by (simp add: execute_def split: prod.splits sum.splits exc.splits)

lemma execute_invalid:
  "validate_request request = Inl e \<Longrightarrow>
   execute request tok db = (Inr (handle_error e request), db)"
  by (simp add: execute_of_try execute_try_def)

lemma execute_lookup_raises:
  "validate_request request = Inr () \<Longrightarrow>
   find_user_by_username (username request) db = (Inl e, db') \<Longrightarrow>
   execute request tok db = (Inr (handle_error e request), db')"
  by (simp add: execute_of_try execute_try_def)

lemma execute_lookup_none:
  "validate_request request = Inr () \<Longrightarrow>
   find_user_by_username (username request) db = (Inr None, db') \<Longrightarrow>
   execute request tok db =
     (Inr (handle_error (NotFoundException (msg_user_not_found_prefix @ username request))
             request), db')"
  by (simp add: execute_of_try execute_try_def)

lemma execute_lookup_some:
  "validate_request request = Inr () \<Longrightarrow>
   find_user_by_username (username request) db = (Inr (Some user_record), db') \<Longrightarrow>
   execute request tok db =
     (if LoginRequest.password request \<noteq> UserRecord.password user_record
      then (Inr (handle_error (ValidationException msg_password_mismatch) request), db')
      else (Inr (ServiceResult_ok
                   \<lparr>LoginResponse.user_id = UserRecord.user_id user_record,
                      LoginResponse.user_name = UserRecord.user_name user_record,
                      token = generate_temp_token tok, message = msg_login_success\<rparr>
                   [(ascii ''username'', username request),
                    (ascii ''user_id'', UserRecord.user_id user_record)]), db'))"
  by (simp add: execute_of_try execute_try_def verify_password_def Let_def)

lemma login_of_failure:
  "execute request tok db = (Inr (ServiceResult_fail m md), db') \<Longrightarrow> m \<noteq> [] \<Longrightarrow>
   login request tok db =
     (Raised \<lparr>status_code =
                (if str_in sub_cannot_find m \<or> str_in sub_not_match m \<or> str_in sub_not_correct m
                 then 401 else if str_in sub_empty_string m then 400 else 500),
              detail = m\<rparr>, db')"
  by (simp add: login_def ServiceResult_fail_def)

lemma login_of_success:
  "execute request tok db = (Inr (ServiceResult_ok d md), db') \<Longrightarrow>
   login request tok db = (Returned (Some d), db')"
  by (simp add: login_def ServiceResult_ok_def)

text \<open>Every run of \<open>execute\<close> takes one of six paths.\<close>

lemma execute_cases:
  obtains
    (username_blank) "strip (username request) = []"
      "execute request tok db = (Inr (handle_error (ValidationException msg_username_blank) request), db)"
  | (password_blank) "strip (username request) \<noteq> []" "strip (LoginRequest.password request) = []"
      "execute request tok db = (Inr (handle_error (ValidationException msg_password_blank) request), db)"
  | (lookup_raises) n where "validate_request request = Inr ()"
      "n = ascii ''ValidationError'' \<or> fault db = Some n"
      "execute request tok db =
         (Inr (handle_error (OtherException n) request),
          db\<lparr>executed := executed db @ [username request]\<rparr>)"
  | (not_found) "validate_request request = Inr ()"
      "fst (find_user_by_username (username request) db) = Inr None"
      "execute request tok db =
         (Inr (handle_error (NotFoundException (msg_user_not_found_prefix @ username request))
                 request),
          db\<lparr>executed := executed db @ [username request]\<rparr>)"
  | (mismatch) user_record where "validate_request request = Inr ()"
      "fst (find_user_by_username (username request) db) = Inr (Some user_record)"
      "LoginRequest.password request \<noteq> UserRecord.password user_record"
      "execute request tok db =
         (Inr (handle_error (ValidationException msg_password_mismatch) request),
          db\<lparr>executed := executed db @ [username request]\<rparr>)"
  | (ok) user_record where "validate_request request = Inr ()"
      "fst (find_user_by_username (username request) db) = Inr (Some user_record)"
      "LoginRequest.password request = UserRecord.password user_record"
      "execute request tok db =
         (Inr (ServiceResult_ok
                   \<lparr>LoginResponse.user_id = UserRecord.user_id user_record,
                      LoginResponse.user_name = UserRecord.user_name user_record,
                      token = generate_temp_token tok, message = msg_login_success\<rparr>
                   [(ascii ''username'', username request),
                    (ascii ''user_id'', UserRecord.user_id user_record)]),
          db\<lparr>executed := executed db @ [username request]\<rparr>)"
proof -
  let ?db' = "db\<lparr>executed := executed db @ [username request]\<rparr>"
  have snd_find: "snd (find_user_by_username (username request) db) = ?db'"
    by (simp add: find_user_by_username_def db_execute_def Let_def
             split: option.splits sum.splits)
  show thesis
  proof (cases "strip (username request) = []")
    case True
    then have "validate_request request = Inl (ValidationException msg_username_blank)"
      by (simp add: validate_request_def)
    then have "execute request tok db =
        (Inr (handle_error (ValidationException msg_username_blank) request), db)"
      by (rule execute_invalid)
    with True show thesis by (rule username_blank)
  next
    case u: False
    show thesis
    proof (cases "strip (LoginRequest.password request) = []")
      case True
      with u have "validate_request request = Inl (ValidationException msg_password_blank)"
        by (simp add: validate_request_def)
      then have "execute request tok db =
          (Inr (handle_error (ValidationException msg_password_blank) request), db)"
        by (rule execute_invalid)
      with u True show thesis by (rule password_blank)
    next
      case False
      with u have v: "validate_request request = Inr ()"
        by (simp add: validate_request_def)
      obtain res where f: "find_user_by_username (username request) db = (res, ?db')"
        using snd_find by (cases "find_user_by_username (username request) db") simp
      show thesis
      proof (cases res)
        case (Inl e)
        from f Inl obtain n where n: "e = OtherException n"
            "n = ascii ''ValidationError'' \<or> fault db = Some n"
          by (auto simp: find_user_by_username_def db_execute_def Let_def UserRecord_of_row_def
                   split: option.splits sum.splits prod.splits)
        from execute_lookup_raises [OF v f [unfolded Inl]] n
        show thesis by (intro lookup_raises [OF v n(2)]) simp
      next
        case (Inr found)
        show thesis
        proof (cases found)
          case None
          from execute_lookup_none [OF v f [unfolded Inr None]] f Inr None
          show thesis by (intro not_found [OF v]) simp_all
        next
          case (Some user_record)
          have ff: "fst (find_user_by_username (username request) db) = Inr (Some user_record)"
            using f Inr Some by simp
          note ex = execute_lookup_some [OF v f [unfolded Inr Some], of tok]
          show thesis
          proof (cases "LoginRequest.password request = UserRecord.password user_record")
            case True
            with ex show thesis by (intro ok [OF v ff True]) simp
          next
            case False
            with ex show thesis by (intro mismatch [OF v ff False]) simp
          qed
        qed
      qed
    qed
  qed
qed

lemma execute_failure_shape:
  assumes "execute request tok db = (Inr result, db')" and "\<not> success result"
  obtains m tn where
    "result = ServiceResult_fail m
                [(ascii ''error_type'', tn), (ascii ''username'', username request)]"
    "m = msg_username_blank \<and> tn = ascii ''ValidationException'' \<or>
     m = msg_password_blank \<and> tn = ascii ''ValidationException'' \<or>
     m = msg_password_mismatch \<and> tn = ascii ''ValidationException'' \<or>
     m = msg_credentials_incorrect \<and> tn = ascii ''NotFoundException'' \<or>
     m = msg_login_error \<and> (tn = ascii ''ValidationError'' \<or> fault db = Some tn)"
proof (cases rule: execute_cases [of request tok db])
  case username_blank
  with assms(1) have "result = ServiceResult_fail msg_username_blank
      [(ascii ''error_type'', ascii ''ValidationException''),
       (ascii ''username'', username request)]"
    by (simp add: handle_error_def)
  then show thesis by (rule that) simp
next
  case password_blank
  with assms(1) have "result = ServiceResult_fail msg_password_blank
      [(ascii ''error_type'', ascii ''ValidationException''),
       (ascii ''username'', username request)]"
    by (simp add: handle_error_def)
  then show thesis by (rule that) simp
next
  case (lookup_raises n)
  with assms(1) have "result = ServiceResult_fail msg_login_error
      [(ascii ''error_type'', n), (ascii ''username'', username request)]"
    by (simp add: handle_error_def)
  from this lookup_raises(2) show thesis
    by (intro that [of msg_login_error n]) auto
next
  case not_found
  with assms(1) have "result = ServiceResult_fail msg_credentials_incorrect
      [(ascii ''error_type'', ascii ''NotFoundException''),
       (ascii ''username'', username request)]"
    by (simp add: handle_error_def)
  then show thesis by (rule that) simp
next
  case (mismatch user_record)
  with assms(1) have "result = ServiceResult_fail msg_password_mismatch
      [(ascii ''error_type'', ascii ''ValidationException''),
       (ascii ''username'', username request)]"
    by (simp add: handle_error_def)
  then show thesis by (rule that) simp
next
  case (ok user_record)
  with assms(1) have "success result"
    by (auto simp: ServiceResult_ok_def)
  with assms(2) show thesis by simp
qed

section \<open>The scenarios, evaluated\<close>

lemmas scenario_defs =
  execute_def execute_try_def validate_request_def strip_def isspace_def
  login_request_def ascii_def example_db_def broken_db_def find_user_by_username_def
  db_execute_def fetchone_def UserRecord_of_row_def verify_password_def handle_error_def
  ServiceResult_ok_def ServiceResult_fail_def Let_def

lemma scenario_valid:
  "execute (login_request ''user001'' ''password123'') tok example_db =
     (Inr (ServiceResult_ok
             \<lparr>LoginResponse.user_id = ascii ''user001'', LoginResponse.user_name = name_hong,
                token = generate_temp_token tok, message = msg_login_success\<rparr>
             [(ascii ''username'', ascii ''user001''), (ascii ''user_id'', ascii ''user001'')]),
      example_db\<lparr>executed := [ascii ''user001'']\<rparr>)"
  by (simp add: scenario_defs)


lemma scenario_wrong_password:
  "execute (login_request ''user001'' ''wrong'') tok example_db =
     (Inr (ServiceResult_fail msg_password_mismatch
             [(ascii ''error_type'', ascii ''ValidationException''),
              (ascii ''username'', ascii ''user001'')]),
      example_db\<lparr>executed := [ascii ''user001'']\<rparr>)"
  by (simp add: scenario_defs)

lemma scenario_unknown_user:
  "execute (login_request ''ghost'' ''x'') tok example_db =
     (Inr (ServiceResult_fail msg_credentials_incorrect
             [(ascii ''error_type'', ascii ''NotFoundException''),
              (ascii ''username'', ascii ''ghost'')]),
      example_db\<lparr>executed := [ascii ''ghost'']\<rparr>)"
  by (simp add: scenario_defs)

lemma scenario_blank_username:
  "execute (login_request '' '' ''x'') tok example_db =
     (Inr (ServiceResult_fail msg_username_blank
             [(ascii ''error_type'', ascii ''ValidationException''),
              (ascii ''username'', ascii '' '')]),
      example_db)"
  by (simp add: scenario_defs)

lemma scenario_blank_password:
  "execute (login_request '' user001 '' '' '') tok example_db =
     (Inr (ServiceResult_fail msg_password_blank
             [(ascii ''error_type'', ascii ''ValidationException''),
              (ascii ''username'', ascii '' user001 '')]),
      example_db)"
  by (simp add: scenario_defs)

lemma scenario_broken_db:
  "execute (login_request ''user001'' ''password123'') tok broken_db =
     (Inr (ServiceResult_fail msg_login_error
             [(ascii ''error_type'', ascii ''DatabaseError''),
              (ascii ''username'', ascii ''user001'')]),
      broken_db\<lparr>executed := [ascii ''user001'']\<rparr>)"
  by (simp add: scenario_defs)

section \<open>The claims\<close>

subsection \<open>C1: wrong password and unknown user\<close>

text \<open>
  C1.  The claim: a wrong password and an unknown username are answered with 401 and the same
  message text.  The code answers both with 401, but with two different texts.  Against the
  store of the scenarios, the request \<open>user001 / wrong\<close> is answered with the mismatch
  message ("the password does not match"), the request \<open>ghost / x\<close> with the vague message
  ("user ID or password is not correct"): \<open>handle_error\<close> replaces the text of a
  \<open>NotFoundException\<close>, but passes the text of the \<open>ValidationException\<close> that line 95
  of service.py raises on a mismatch through unchanged.  Both requests satisfy the field
  constraints of \<open>LoginRequest\<close>.
\<close>

theorem wrong_password_told_apart_from_unknown_user:
  "LoginRequest_fields_ok (login_request ''user001'' ''wrong'') \<and>
   LoginRequest_fields_ok (login_request ''ghost'' ''x'') \<and>
   fst (login (login_request ''user001'' ''wrong'') tok example_db) =
     Raised \<lparr>status_code = 401, detail = msg_password_mismatch\<rparr> \<and>
   fst (login (login_request ''ghost'' ''x'') tok example_db) =
     Raised \<lparr>status_code = 401, detail = msg_credentials_incorrect\<rparr> \<and>
   msg_password_mismatch \<noteq> msg_credentials_incorrect"
proof -
  have "login (login_request ''user001'' ''wrong'') tok example_db =
      (Raised \<lparr>status_code = 401, detail = msg_password_mismatch\<rparr>,
       example_db\<lparr>executed := [ascii ''user001'']\<rparr>)"
    using login_of_failure [OF scenario_wrong_password messages_nonempty(3)]
    by (simp add: needles_password_mismatch)
  moreover have "login (login_request ''ghost'' ''x'') tok example_db =
      (Raised \<lparr>status_code = 401, detail = msg_credentials_incorrect\<rparr>,
       example_db\<lparr>executed := [ascii ''ghost'']\<rparr>)"
    using login_of_failure [OF scenario_unknown_user messages_nonempty(4)]
    by (simp add: needles_credentials_incorrect)
  moreover have "LoginRequest_fields_ok (login_request ''user001'' ''wrong'')"
    "LoginRequest_fields_ok (login_request ''ghost'' ''x'')"
    by (simp_all add: LoginRequest_fields_ok_def login_request_def ascii_def)
  ultimately show ?thesis using messages_distinct by simp
qed

subsection \<open>C2: successful login\<close>

text \<open>
  C2.  A request whose username and password each contain a character that is not whitespace,
  against a store that answers the query and holds, under that username as its key, a record
  with the submitted password: \<open>AuthService.execute\<close> returns a success envelope whose
  response carries the record's user id and user name, the token built from the random bytes
  and the success message, and the endpoint returns that response with status 200.  The
  scenario \<open>user001 / password123\<close> of spec 8 is the witness.
\<close>

theorem valid_credentials_login_succeeds:
  assumes "\<exists>c\<in>set (username request). \<not> isspace c"
    and "\<exists>c\<in>set (LoginRequest.password request). \<not> isspace c"
    and "fault db = None"
    and "(Some (username request), Some (LoginRequest.password request), Some name)
           \<in> set (t_user db)"
    and "\<forall>r\<in>set (t_user db). fst r = Some (username request) \<longrightarrow>
           r = (Some (username request), Some (LoginRequest.password request), Some name)"
  shows "\<exists>db'.
           execute request tok db =
             (Inr (ServiceResult_ok
                     \<lparr>LoginResponse.user_id = username request,
                        LoginResponse.user_name = name,
                        token = generate_temp_token tok, message = msg_login_success\<rparr>
                     [(ascii ''username'', username request),
                      (ascii ''user_id'', username request)]), db') \<and>
           login request tok db =
             (Returned (Some \<lparr>LoginResponse.user_id = username request,
                               LoginResponse.user_name = name,
                               token = generate_temp_token tok,
                               message = msg_login_success\<rparr>), db') \<and>
           http_status (fst (login request tok db)) = 200"
proof -
  let ?db' = "db\<lparr>executed := executed db @ [username request]\<rparr>"
  from assms(1,2) have v: "validate_request request = Inr ()"
    by (simp add: validate_request_Inr_iff strip_Nil_iff)
  have f: "find_user_by_username (username request) db =
      (Inr (Some \<lparr>UserRecord.user_id = username request,
                    UserRecord.password = LoginRequest.password request,
                    UserRecord.user_name = name\<rparr>), ?db')"
    using assms(3,4,5) by (rule find_user_some)
  have ex: "execute request tok db =
             (Inr (ServiceResult_ok
                     \<lparr>LoginResponse.user_id = username request,
                        LoginResponse.user_name = name,
                        token = generate_temp_token tok, message = msg_login_success\<rparr>
                     [(ascii ''username'', username request),
                      (ascii ''user_id'', username request)]), ?db')"
    using execute_lookup_some [OF v f, of tok] by simp
  from login_of_success [OF ex] ex show ?thesis by simp
qed

theorem valid_credentials_login_succeeds_witness:
  "fst (login (login_request ''user001'' ''password123'') zero_bytes example_db) =
     Returned (Some \<lparr>LoginResponse.user_id = ascii ''user001'',
                      LoginResponse.user_name = name_hong,
                      token = generate_temp_token zero_bytes,
                      message = msg_login_success\<rparr>) \<and>
   http_status (fst (login (login_request ''user001'' ''password123'') zero_bytes example_db))
     = 200"
proof -
  let ?rq = "login_request ''user001'' ''password123''"
  have u: "username ?rq = ascii ''user001''" and p: "LoginRequest.password ?rq = ascii ''password123''"
    by (simp_all add: login_request_def)
  have 1: "\<exists>c\<in>set (username ?rq). \<not> isspace c"
    by (simp add: login_request_def ascii_def isspace_def)
  have 2: "\<exists>c\<in>set (LoginRequest.password ?rq). \<not> isspace c"
    by (simp add: login_request_def ascii_def isspace_def)
  have 3: "fault example_db = None"
    by (simp add: example_db_def)
  have 4: "(Some (username ?rq), Some (LoginRequest.password ?rq), Some name_hong)
             \<in> set (t_user example_db)"
    by (simp add: example_db_def u p)
  have 5: "\<forall>r\<in>set (t_user example_db). fst r = Some (username ?rq) \<longrightarrow>
             r = (Some (username ?rq), Some (LoginRequest.password ?rq), Some name_hong)"
    by (simp add: example_db_def u p)
  from valid_credentials_login_succeeds [OF 1 2 3 4 5, of zero_bytes]
  show ?thesis by (auto simp: u)
qed

subsection \<open>C3: blank credentials\<close>

text \<open>
  C3.  When the username or the password of a request is empty or consists of whitespace
  only, \<open>AuthService.execute\<close> returns a validation failure whose message is one of the two
  messages that contain the needle for "empty string", the endpoint answers 400 with that
  message, and the session is returned as it was received: no statement has been executed,
  whereas every call of \<open>find_user_by_username\<close> adds one to the session's log.
\<close>

theorem blank_credentials_rejected_before_lookup:
  assumes "(\<forall>c\<in>set (username request). isspace c) \<or>
           (\<forall>c\<in>set (LoginRequest.password request). isspace c)"
  shows "\<exists>m. execute request tok db =
               (Inr (ServiceResult_fail m
                       [(ascii ''error_type'', ascii ''ValidationException''),
                        (ascii ''username'', username request)]), db) \<and>
             (m = msg_username_blank \<or> m = msg_password_blank) \<and>
             str_in sub_empty_string m \<and>
             login request tok db = (Raised \<lparr>status_code = 400, detail = m\<rparr>, db) \<and>
             executed (snd (execute request tok db)) = executed db \<and>
             (\<forall>u d. executed (snd (find_user_by_username u d)) \<noteq> executed d)"
proof -
  have log: "\<forall>u d. executed (snd (find_user_by_username u d)) \<noteq> executed d"
    by (simp add: find_user_executed)
  from assms have blank: "strip (username request) = [] \<or>
      strip (LoginRequest.password request) = []"
    by (simp add: strip_Nil_iff)
  show ?thesis
  proof (cases "strip (username request) = []")
    case True
    then have v: "validate_request request = Inl (ValidationException msg_username_blank)"
      by (simp add: validate_request_def)
    have ex: "execute request tok db =
        (Inr (ServiceResult_fail msg_username_blank
               [(ascii ''error_type'', ascii ''ValidationException''),
                (ascii ''username'', username request)]), db)"
      using execute_invalid [OF v, of tok db] by (simp add: handle_error_def)
    have "login request tok db = (Raised \<lparr>status_code = 400, detail = msg_username_blank\<rparr>, db)"
      using login_of_failure [OF ex messages_nonempty(1)] by (simp add: needles_username_blank)
    with ex log show ?thesis by (simp add: needles_username_blank)
  next
    case False
    with blank have p: "strip (LoginRequest.password request) = []" by simp
    with False have v: "validate_request request = Inl (ValidationException msg_password_blank)"
      by (simp add: validate_request_def)
    have ex: "execute request tok db =
        (Inr (ServiceResult_fail msg_password_blank
               [(ascii ''error_type'', ascii ''ValidationException''),
                (ascii ''username'', username request)]), db)"
      using execute_invalid [OF v, of tok db] by (simp add: handle_error_def)
    have "login request tok db = (Raised \<lparr>status_code = 400, detail = msg_password_blank\<rparr>, db)"
      using login_of_failure [OF ex messages_nonempty(2)] by (simp add: needles_password_blank)
    with ex log show ?thesis by (simp add: needles_password_blank)
  qed
qed

theorem blank_credentials_rejected_before_lookup_witness:
  "((\<forall>c\<in>set (username (login_request '' '' ''x'')). isspace c) \<or>
    (\<forall>c\<in>set (LoginRequest.password (login_request '' '' ''x'')). isspace c)) \<and>
   login (login_request '' '' ''x'') zero_bytes example_db =
     (Raised \<lparr>status_code = 400, detail = msg_username_blank\<rparr>, example_db) \<and>
   executed (snd (execute (login_request '' '' ''x'') zero_bytes example_db)) = []"
proof -
  have h: "(\<forall>c\<in>set (username (login_request '' '' ''x'')). isspace c) \<or>
    (\<forall>c\<in>set (LoginRequest.password (login_request '' '' ''x'')). isspace c)"
    by (simp add: login_request_def ascii_def isspace_def)
  from blank_credentials_rejected_before_lookup [OF h, of zero_bytes example_db]
  obtain m where
    ex: "execute (login_request '' '' ''x'') zero_bytes example_db =
           (Inr (ServiceResult_fail m
                   [(ascii ''error_type'', ascii ''ValidationException''),
                    (ascii ''username'', username (login_request '' '' ''x''))]), example_db)"
    and lg: "login (login_request '' '' ''x'') zero_bytes example_db =
           (Raised \<lparr>status_code = 400, detail = m\<rparr>, example_db)"
    and log: "executed (snd (execute (login_request '' '' ''x'') zero_bytes example_db)) =
           executed example_db"
    by blast
  from ex have "m = msg_username_blank"
    by (simp add: scenario_blank_username ServiceResult_fail_def)
  moreover have "executed example_db = []"
    by (simp add: example_db_def)
  ultimately show ?thesis using h lg log by simp
qed

subsection \<open>C4: status of a failure\<close>

text \<open>
  C4.  For every failure envelope \<open>AuthService.execute\<close> produces, the endpoint raises an
  \<open>HTTPException\<close> whose detail is the envelope's message and whose status depends on the
  message alone: 401 when it contains one of the needles "cannot find", "does not match",
  "is not correct", otherwise 400 when it contains "empty string", otherwise 500.  No other
  status results from a failure.
\<close>

theorem failure_status_by_substring:
  assumes "execute request tok db = (Inr result, db')" and "\<not> success result"
  shows "\<exists>m. error result = Some m \<and>
           login request tok db =
             (Raised \<lparr>status_code =
                        (if str_in sub_cannot_find m \<or> str_in sub_not_match m \<or>
                            str_in sub_not_correct m then 401
                         else if str_in sub_empty_string m then 400 else 500),
                      detail = m\<rparr>, db') \<and>
           http_status (fst (login request tok db)) \<in> {401, 400, 500}"
proof -
  from assms obtain m tn where
    r: "result = ServiceResult_fail m
                [(ascii ''error_type'', tn), (ascii ''username'', username request)]"
    and m: "m = msg_username_blank \<and> tn = ascii ''ValidationException'' \<or>
     m = msg_password_blank \<and> tn = ascii ''ValidationException'' \<or>
     m = msg_password_mismatch \<and> tn = ascii ''ValidationException'' \<or>
     m = msg_credentials_incorrect \<and> tn = ascii ''NotFoundException'' \<or>
     m = msg_login_error \<and> (tn = ascii ''ValidationError'' \<or> fault db = Some tn)"
    by (rule execute_failure_shape)
  from m have "m \<noteq> []" using messages_nonempty by auto
  from login_of_failure [OF assms(1) [unfolded r] this]
  have l: "login request tok db =
             (Raised \<lparr>status_code =
                        (if str_in sub_cannot_find m \<or> str_in sub_not_match m \<or>
                            str_in sub_not_correct m then 401
                         else if str_in sub_empty_string m then 400 else 500),
                      detail = m\<rparr>, db')" .
  have "error result = Some m" by (simp add: r ServiceResult_fail_def)
  with l show ?thesis by simp
qed

theorem failure_status_by_substring_witness:
  "http_status (fst (login (login_request ''ghost'' ''x'') zero_bytes example_db)) = 401 \<and>
   http_status (fst (login (login_request '' '' ''x'') zero_bytes example_db)) = 400 \<and>
   http_status (fst (login (login_request ''user001'' ''password123'') zero_bytes broken_db))
     = 500"
proof -
  have f: "\<not> success (ServiceResult_fail m md)" for m :: pystr and md
    by (simp add: ServiceResult_fail_def)
  have e: "error (ServiceResult_fail m md) = Some m" for m :: pystr and md
    by (simp add: ServiceResult_fail_def)
  from failure_status_by_substring [OF scenario_unknown_user [of zero_bytes] f]
  have a: "http_status (fst (login (login_request ''ghost'' ''x'') zero_bytes example_db)) = 401"
    by (auto simp: e needles_credentials_incorrect)
  from failure_status_by_substring [OF scenario_blank_username [of zero_bytes] f]
  have b: "http_status (fst (login (login_request '' '' ''x'') zero_bytes example_db)) = 400"
    by (auto simp: e needles_username_blank)
  from failure_status_by_substring [OF scenario_broken_db [of zero_bytes] f]
  have c: "http_status (fst (login (login_request ''user001'' ''password123'') zero_bytes
             broken_db)) = 500"
    by (auto simp: e needles_login_error)
  from a b c show ?thesis by simp
qed

subsection \<open>C5: unknown user\<close>

text \<open>
  C5.  When the store answers the query and no record has the submitted username as its
  \<open>USER_ID\<close>, \<open>find_user_by_username\<close> returns \<open>None\<close> and raises nothing; when
  \<open>execute\<close> gets that far (the request has passed validation), it then returns a failure
  envelope with the vague message, which does not contain the needle "cannot find" of the
  internal exception text, and the endpoint answers 401 with that message.
\<close>

theorem unknown_user_vague_failure:
  assumes "fault db = None"
    and "\<forall>r\<in>set (t_user db). fst r \<noteq> Some (username request)"
  shows "fst (find_user_by_username (username request) db) = Inr None \<and>
         \<not> str_in sub_cannot_find msg_credentials_incorrect \<and>
         (validate_request request = Inr () \<longrightarrow>
            (\<exists>db'. execute request tok db =
                      (Inr (ServiceResult_fail msg_credentials_incorrect
                              [(ascii ''error_type'', ascii ''NotFoundException''),
                               (ascii ''username'', username request)]), db') \<and>
                    login request tok db =
                      (Raised \<lparr>status_code = 401, detail = msg_credentials_incorrect\<rparr>,
                       db')))"
proof -
  let ?db' = "db\<lparr>executed := executed db @ [username request]\<rparr>"
  have f: "find_user_by_username (username request) db = (Inr None, ?db')"
    using assms by (rule find_user_none)
  have "\<exists>db'. execute request tok db =
                      (Inr (ServiceResult_fail msg_credentials_incorrect
                              [(ascii ''error_type'', ascii ''NotFoundException''),
                               (ascii ''username'', username request)]), db') \<and>
                    login request tok db =
                      (Raised \<lparr>status_code = 401, detail = msg_credentials_incorrect\<rparr>,
                       db')"
    if v: "validate_request request = Inr ()"
  proof -
    have ex: "execute request tok db =
                      (Inr (ServiceResult_fail msg_credentials_incorrect
                              [(ascii ''error_type'', ascii ''NotFoundException''),
                               (ascii ''username'', username request)]), ?db')"
      using execute_lookup_none [OF v f, of tok] by (simp add: handle_error_def)
    from login_of_failure [OF ex messages_nonempty(4)] ex show ?thesis
      by (simp add: needles_credentials_incorrect)
  qed
  with f show ?thesis
    by (simp add: needles_credentials_incorrect_only)
qed

theorem unknown_user_vague_failure_witness:
  "fst (find_user_by_username (ascii ''ghost'') example_db) = Inr None \<and>
   fst (login (login_request ''ghost'' ''x'') zero_bytes example_db) =
     Raised \<lparr>status_code = 401, detail = msg_credentials_incorrect\<rparr>"
proof -
  let ?rq = "login_request ''ghost'' ''x''"
  have u: "username ?rq = ascii ''ghost''"
    by (simp add: login_request_def)
  have 1: "fault example_db = None"
    by (simp add: example_db_def)
  have 2: "\<forall>r\<in>set (t_user example_db). fst r \<noteq> Some (username ?rq)"
    by (simp add: example_db_def u ascii_eq_iff)
  have 3: "validate_request ?rq = Inr ()"
    by (simp add: validate_request_def login_request_def strip_def ascii_def isspace_def)
  from unknown_user_vague_failure [OF 1 2, of zero_bytes] 3
  show ?thesis by (auto simp: u)
qed

subsection \<open>C6: the temporary token\<close>




subsection \<open>C7: exceptions\<close>



subsection \<open>C8: the envelope invariant\<close>

text \<open>
  C8.  Every envelope \<open>AuthService.execute\<close> returns is either tagged success, with a
  \<open>LoginResponse\<close> payload and no error message, or tagged failure, with an error message and
  no payload; \<open>execute\<close> always returns an envelope.  (The envelope constructors are
  modelled from the spec.)
\<close>

theorem execute_envelope_invariant:
  "\<exists>result db'. execute request tok db = (Inr result, db') \<and>
     (success result \<and> data result \<noteq> None \<and> error result = None \<or>
      \<not> success result \<and> data result = None \<and> error result \<noteq> None)"
  by (cases rule: execute_cases [of request tok db])
     (simp_all add: handle_error_def ServiceResult_fail_def ServiceResult_ok_def)

theorem execute_envelope_invariant_witness:
  "(\<exists>result db'. execute (login_request ''user001'' ''password123'') zero_bytes example_db
        = (Inr result, db') \<and> success result \<and> data result \<noteq> None \<and> error result = None) \<and>
   (\<exists>result db'. execute (login_request ''ghost'' ''x'') zero_bytes example_db
        = (Inr result, db') \<and> \<not> success result \<and> data result = None \<and> error result \<noteq> None)"
proof
  from execute_envelope_invariant
    [of "login_request ''user001'' ''password123''" zero_bytes example_db]
  show "\<exists>result db'. execute (login_request ''user001'' ''password123'') zero_bytes example_db
        = (Inr result, db') \<and> success result \<and> data result \<noteq> None \<and> error result = None"
    by (auto simp: scenario_valid ServiceResult_ok_def)
  from execute_envelope_invariant [of "login_request ''ghost'' ''x''" zero_bytes example_db]
  show "\<exists>result db'. execute (login_request ''ghost'' ''x'') zero_bytes example_db
        = (Inr result, db') \<and> \<not> success result \<and> data result = None \<and> error result \<noteq> None"
    by (auto simp: scenario_unknown_user ServiceResult_fail_def)
qed

subsection \<open>C9: no password in a failure envelope\<close>

text \<open>
  C9.  A failure envelope of \<open>AuthService.execute\<close> has no payload, its message is one of five
  fixed strings (the two "empty string" messages, the mismatch message, the vague message, the
  generic message), and its metadata are exactly the name of the exception's class and the
  username; that name is \<open>ValidationException\<close>, \<open>NotFoundException\<close>, the data-validation
  library's \<open>ValidationError\<close> or the class of the session's exception.  No part of the
  envelope is computed from the password.
\<close>

theorem failure_envelope_without_password:
  assumes "execute request tok db = (Inr result, db')" and "\<not> success result"
  shows "data result = None \<and>
         (\<exists>m. error result = Some m \<and>
              m \<in> {msg_username_blank, msg_password_blank, msg_password_mismatch,
                    msg_credentials_incorrect, msg_login_error}) \<and>
         (\<exists>tn. metadata result =
                 [(ascii ''error_type'', tn), (ascii ''username'', username request)] \<and>
               (tn = ascii ''ValidationException'' \<or> tn = ascii ''NotFoundException'' \<or>
                tn = ascii ''ValidationError'' \<or> fault db = Some tn))"
proof -
  from assms obtain m tn where
    r: "result = ServiceResult_fail m
                [(ascii ''error_type'', tn), (ascii ''username'', username request)]"
    and m: "m = msg_username_blank \<and> tn = ascii ''ValidationException'' \<or>
     m = msg_password_blank \<and> tn = ascii ''ValidationException'' \<or>
     m = msg_password_mismatch \<and> tn = ascii ''ValidationException'' \<or>
     m = msg_credentials_incorrect \<and> tn = ascii ''NotFoundException'' \<or>
     m = msg_login_error \<and> (tn = ascii ''ValidationError'' \<or> fault db = Some tn)"
    by (rule execute_failure_shape)
  have "data result = None" "error result = Some m"
    "metadata result = [(ascii ''error_type'', tn), (ascii ''username'', username request)]"
    by (simp_all add: r ServiceResult_fail_def)
  with m show ?thesis by auto
qed

theorem failure_envelope_without_password_witness:
  "\<exists>result db'.
     execute (login_request ''user001'' ''wrong'') zero_bytes example_db = (Inr result, db') \<and>
     \<not> success result \<and> data result = None \<and>
     error result = Some msg_password_mismatch \<and>
     metadata result =
       [(ascii ''error_type'', ascii ''ValidationException''),
        (ascii ''username'', ascii ''user001'')]"
proof -
  let ?result = "ServiceResult_fail msg_password_mismatch
      [(ascii ''error_type'', ascii ''ValidationException''),
       (ascii ''username'', ascii ''user001'')] :: LoginResponse ServiceResult"
  have ex: "execute (login_request ''user001'' ''wrong'') zero_bytes example_db =
      (Inr ?result, example_db\<lparr>executed := [ascii ''user001'']\<rparr>)"
    by (rule scenario_wrong_password)
  have f: "\<not> success ?result"
    by (simp add: ServiceResult_fail_def)
  have more: "error ?result = Some msg_password_mismatch"
    "metadata ?result =
       [(ascii ''error_type'', ascii ''ValidationException''),
        (ascii ''username'', ascii ''user001'')]"
    by (simp_all add: ServiceResult_fail_def)
  from failure_envelope_without_password [OF ex f] have "data ?result = None"
    by (rule conjunct1)
  with ex f more show ?thesis by blast
qed

subsection \<open>C10: the username reaches the store verbatim\<close>

text \<open>
  C10.  The claim: whenever the username has a character that is not whitespace, validation
  passes and the lookup is called with the username as submitted.  It fails when the password
  is blank (the request of the counterexample satisfies the field constraints of
  \<open>LoginRequest\<close>): validation raises at its second check and no lookup takes place.  The amended
  claim adds that the password too has a character that is not whitespace; then validation
  passes, exactly one statement is executed, with the username as submitted, and a record the
  lookup returns has that very string as its \<open>USER_ID\<close>.  In the witness the username
  \<open>" user001 "\<close> finds nothing although \<open>user001\<close> is stored.
\<close>

theorem lookup_not_reached_counterexample:
  "LoginRequest_fields_ok (login_request '' user001 '' '' '') \<and>
   strip (username (login_request '' user001 '' '' '')) = ascii ''user001'' \<and>
   validate_request (login_request '' user001 '' '' '') =
     Inl (ValidationException msg_password_blank) \<and>
   executed example_db = [] \<and>
   executed (snd (execute (login_request '' user001 '' '' '') zero_bytes example_db)) = []"
  by (simp add: scenario_blank_password)
     (simp add: validate_request_def login_request_def strip_def ascii_def isspace_def
        example_db_def LoginRequest_fields_ok_def)

text \<open>
  C10, as amended.  When the username and the password each contain a character that is not
  whitespace, validation passes, \<open>execute\<close> has exactly one statement executed, whose bind
  value is the username as submitted, and a record the lookup returns is a stored row whose
  \<open>USER_ID\<close> is that very string.
\<close>

theorem username_passed_verbatim:
  assumes "\<exists>c\<in>set (username request). \<not> isspace c"
    and "\<exists>c\<in>set (LoginRequest.password request). \<not> isspace c"
  shows "validate_request request = Inr () \<and>
         executed (snd (execute request tok db)) = executed db @ [username request] \<and>
         (\<forall>user_record.
            fst (find_user_by_username (username request) db) = Inr (Some user_record) \<longrightarrow>
            UserRecord.user_id user_record = username request \<and>
            (Some (username request), Some (UserRecord.password user_record),
             Some (UserRecord.user_name user_record)) \<in> set (t_user db))"
proof -
  from assms have v: "validate_request request = Inr ()"
    by (simp add: validate_request_Inr_iff strip_Nil_iff)
  have "executed (snd (execute request tok db)) = executed db @ [username request]"
    using v by (cases rule: execute_cases [of request tok db])
      (simp_all add: validate_request_def)
  with v find_user_some_id show ?thesis by blast
qed

theorem username_passed_verbatim_witness:
  "executed (snd (execute (login_request '' user001 '' ''password123'') zero_bytes example_db))
     = [ascii '' user001 ''] \<and>
   fst (find_user_by_username (ascii '' user001 '') example_db) = Inr None \<and>
   (\<exists>u. fst (find_user_by_username (ascii ''user001'') example_db) = Inr (Some u))"
proof -
  let ?rq = "login_request '' user001 '' ''password123''"
  have u: "username ?rq = ascii '' user001 ''"
    by (simp add: login_request_def)
  have 1: "\<exists>c\<in>set (username ?rq). \<not> isspace c"
    by (simp add: login_request_def ascii_def isspace_def)
  have 2: "\<exists>c\<in>set (LoginRequest.password ?rq). \<not> isspace c"
    by (simp add: login_request_def ascii_def isspace_def)
  have 3: "executed example_db = []"
    by (simp add: example_db_def)
  have 4: "fst (find_user_by_username (ascii '' user001 '') example_db) = Inr None"
    by (simp add: find_user_by_username_def db_execute_def example_db_def fetchone_def
          ascii_def Let_def)
  have 5: "\<exists>u. fst (find_user_by_username (ascii ''user001'') example_db) = Inr (Some u)"
    by (simp add: find_user_by_username_def db_execute_def example_db_def fetchone_def
          UserRecord_of_row_def ascii_def Let_def)
  from username_passed_verbatim [OF 1 2, of zero_bytes example_db] 3 4 5
  show ?thesis by (simp add: u)
qed

end
